theory Spec2Isabelle
  imports Main
begin

section \<open>The signaling server (src/Backend/server.js)\<close>

text \<open>
  The server keeps one registry, \<^verbatim>\<open>const rooms = new Map()\<close>, and one handler closure
  per connected socket. Every handler runs to completion on the single event loop, so a
  handler is a function from the server state to the new state and the list of messages
  it emits, each paired with the socket that receives it.

  Payloads the server only passes on (session descriptions, candidates, status values)
  are opaque blobs. \<^verbatim>\<open>new Date()\<close> and \<^verbatim>\<open>Math.random()\<close> are inputs of the
  handler that reads them.
\<close>

type_synonym blob = string

record user =
  user_id :: string
  user_name :: string
  joinedAt :: nat

record room =
  room_id :: string
  users :: "user list"
  createdAt :: nat

text \<open>
  A connected socket: its transport-assigned id, the two fields the handlers store on
  it (\<^verbatim>\<open>socket.roomId\<close>, \<^verbatim>\<open>socket.userName\<close>, both undefined at first) and the
  Socket.IO rooms it entered with \<^verbatim>\<open>socket.join\<close>. Besides those, every socket is a
  member of the room named by its own id; that membership is not stored, \<open>in_room\<close>
  below accounts for it.
\<close>

record socket =
  sid :: string
  roomId :: "string option"
  userName :: "string option"
  joined :: "string list"

record server =
  rooms :: "string \<rightharpoonup> room"
  sockets :: "socket list"

datatype server_msg =
    Error_msg string
  | Room_created string
  | Room_joined string "user list" bool
  | User_joined string string nat
  | User_left string "string option" nat
  | Offer blob string
  | Answer blob string
  | Ice_candidate blob string
  | User_status_update string blob

type_synonym outbox = "(string \<times> server_msg) list"

definition init :: server where
  "init = \<lparr>rooms = Map.empty, sockets = []\<rparr>"

definition socket_of :: "server \<Rightarrow> string \<Rightarrow> socket option" where
  "socket_of s me = find (\<lambda>t. sid t = me) (sockets s)"

definition in_room :: "string \<Rightarrow> socket \<Rightarrow> bool" where
  "in_room r t = (sid t = r \<or> r \<in> set (joined t))"

text \<open>
  \<^verbatim>\<open>socket.to(r).emit(m)\<close>: the message goes to every connected socket in the
  Socket.IO room \<open>r\<close>, the emitting socket left out.
\<close>

definition to_room :: "server \<Rightarrow> string \<Rightarrow> string \<Rightarrow> server_msg \<Rightarrow> outbox" where
  "to_room s me r m =
     map (\<lambda>t. (sid t, m)) (filter (\<lambda>t. sid t \<noteq> me \<and> in_room r t) (sockets s))"

text \<open>JavaScript truthiness of a string field that may be undefined.\<close>

fun truthy :: "string option \<Rightarrow> bool" where
  "truthy None = False"
| "truthy (Some v) = (v \<noteq> [])"

definition digit :: "nat \<Rightarrow> char" where
  "digit n = ''0123456789'' ! (n mod 10)"

fun string_of_nat :: "nat \<Rightarrow> string" where
  "string_of_nat n =
     (if n < 10 then [digit n] else string_of_nat (n div 10) @ [digit n])"

declare string_of_nat.simps [simp del]

text \<open>
  \<^verbatim>\<open>Math.random().toString(36).substr(2, 9)\<close>: the argument is the base-36 rendering
  of the random draw (\<^verbatim>\<open>"0.k3j9x2m1q4"\<close>); the function keeps nine characters from
  index 2 on.
\<close>

definition generateRoomId :: "string \<Rightarrow> string" where
  "generateRoomId rnd = take 9 (drop 2 rnd)"

definition create_room :: "string \<Rightarrow> string \<Rightarrow> nat \<Rightarrow> server \<Rightarrow> server \<times> outbox" where
  "create_room me rnd now s =
     (let rid = generateRoomId rnd in
      (s\<lparr>rooms := (rooms s)(rid \<mapsto> \<lparr>room_id = rid, users = [], createdAt = now\<rparr>)\<rparr>,
       [(me, Room_created rid)]))"

definition join_socket :: "string \<Rightarrow> string \<Rightarrow> string \<Rightarrow> socket \<Rightarrow> socket" where
  "join_socket me rid nm t =
     (if sid t = me
      then t\<lparr>roomId := Some rid, userName := Some nm, joined := List.insert rid (joined t)\<rparr>
      else t)"

definition join_room ::
  "string \<Rightarrow> string \<Rightarrow> string option \<Rightarrow> nat \<Rightarrow> server \<Rightarrow> server \<times> outbox" where
  "join_room me rid uname now s =
     (case rooms s rid of
        None \<Rightarrow> (s, [(me, Error_msg ''Room not found'')])
      | Some rm \<Rightarrow>
          (case find (\<lambda>u. user_id u = me) (users rm) of
             Some existingUser \<Rightarrow>
               (s, [(me, Room_joined rid (users rm)
                      (case users rm of [] \<Rightarrow> False | u0 # rest \<Rightarrow> user_id u0 = me))])
           | None \<Rightarrow>
               if length (users rm) \<ge> 2 then (s, [(me, Error_msg ''Room is full'')])
               else
                 let nm = (if truthy uname then the uname
                           else ''User '' @ string_of_nat (length (users rm) + 1));
                     usr = \<lparr>user_id = me, user_name = nm, joinedAt = now\<rparr>;
                     rm' = rm\<lparr>users := users rm @ [usr]\<rparr>;
                     s' = s\<lparr>rooms := (rooms s)(rid \<mapsto> rm'),
                            sockets := map (join_socket me rid nm) (sockets s)\<rparr>
                 in (s', to_room s' me rid (User_joined me nm (length (users rm')))
                         @ [(me, Room_joined rid (users rm') (length (users rm') = 1))])))"

text \<open>The three relay handlers: \<^verbatim>\<open>socket.to(targetId).emit(...)\<close>, nothing else.\<close>

definition on_offer :: "string \<Rightarrow> blob \<Rightarrow> string \<Rightarrow> server \<Rightarrow> server \<times> outbox" where
  "on_offer me offer targetId s = (s, to_room s me targetId (Offer offer me))"

definition on_answer :: "string \<Rightarrow> blob \<Rightarrow> string \<Rightarrow> server \<Rightarrow> server \<times> outbox" where
  "on_answer me answer targetId s = (s, to_room s me targetId (Answer answer me))"

definition on_ice_candidate :: "string \<Rightarrow> blob \<Rightarrow> string \<Rightarrow> server \<Rightarrow> server \<times> outbox" where
  "on_ice_candidate me candidate targetId s =
     (s, to_room s me targetId (Ice_candidate candidate me))"

definition on_user_status :: "string \<Rightarrow> blob \<Rightarrow> server \<Rightarrow> server \<times> outbox" where
  "on_user_status me status s =
     (case socket_of s me of
        None \<Rightarrow> (s, [])
      | Some sock \<Rightarrow>
          if truthy (roomId sock)
          then (s, to_room s me (the (roomId sock)) (User_status_update me status))
          else (s, []))"

text \<open>
  The disconnect handler. The transport has already taken the socket out of the
  connected set and out of its Socket.IO rooms when the handler runs; the handler
  itself touches only the room named by \<^verbatim>\<open>socket.roomId\<close>.
\<close>

definition on_disconnect :: "string \<Rightarrow> server \<Rightarrow> server \<times> outbox" where
  "on_disconnect me s =
     (case socket_of s me of
        None \<Rightarrow> (s, [])
      | Some sock \<Rightarrow>
          let s0 = s\<lparr>sockets := filter (\<lambda>t. sid t \<noteq> me) (sockets s)\<rparr> in
          if truthy (roomId sock) then
            (let r = the (roomId sock) in
             case rooms s0 r of
               None \<Rightarrow> (s0, [])
             | Some rm \<Rightarrow>
                 let rm' = rm\<lparr>users := filter (\<lambda>u. user_id u \<noteq> me) (users rm)\<rparr>;
                     out = to_room s0 me r (User_left me (userName sock) (length (users rm')))
                 in if length (users rm') = 0
                    then (s0\<lparr>rooms := (rooms s0)(r := None)\<rparr>, out)
                    else (s0\<lparr>rooms := (rooms s0)(r \<mapsto> rm')\<rparr>, out))
          else (s0, []))"

text \<open>
  The events the server reacts to. A handler exists only for a connected socket, and
  the transport gives every live connection an id no other live connection has.
\<close>

datatype event =
    Connect string
  | Create_room string string nat
  | Join_room string string "string option" nat
  | Send_offer string blob string
  | Send_answer string blob string
  | Send_ice_candidate string blob string
  | User_status string blob
  | Disconnect string

definition connected :: "server \<Rightarrow> string \<Rightarrow> bool" where
  "connected s me = (me \<in> set (map sid (sockets s)))"

fun actor :: "event \<Rightarrow> string" where
  "actor (Connect me) = me"
| "actor (Create_room me rnd now) = me"
| "actor (Join_room me rid uname now) = me"
| "actor (Send_offer me p t) = me"
| "actor (Send_answer me p t) = me"
| "actor (Send_ice_candidate me p t) = me"
| "actor (User_status me p) = me"
| "actor (Disconnect me) = me"

fun handle :: "event \<Rightarrow> server \<Rightarrow> server \<times> outbox" where
  "handle (Connect me) s = (s, [])"
| "handle (Create_room me rnd now) s = create_room me rnd now s"
| "handle (Join_room me rid uname now) s = join_room me rid uname now s"
| "handle (Send_offer me p t) s = on_offer me p t s"
| "handle (Send_answer me p t) s = on_answer me p t s"
| "handle (Send_ice_candidate me p t) s = on_ice_candidate me p t s"
| "handle (User_status me p) s = on_user_status me p s"
| "handle (Disconnect me) s = on_disconnect me s"

definition step :: "server \<Rightarrow> event \<Rightarrow> server \<times> outbox" where
  "step s e =
     (case e of
        Connect me \<Rightarrow>
          if connected s me then (s, [])
          else (s\<lparr>sockets := sockets s @
                  [\<lparr>sid = me, roomId = None, userName = None, joined = []\<rparr>]\<rparr>, [])
      | _ \<Rightarrow> if connected s (actor e) then handle e s else (s, []))"

fun run :: "server \<Rightarrow> event list \<Rightarrow> server" where
  "run s [] = s"
| "run s (e # es) = run (fst (step s e)) es"

inductive reachable :: "server \<Rightarrow> bool" where
  reachable_init: "reachable init"
| reachable_step: "reachable s \<Longrightarrow> reachable (fst (step s e))"

section \<open>The client hook (src/Backend/useWebRTC.ts)\<close>

text \<open>
  The hook keeps React state and refs, talks to the browser (media devices, one
  \<^verbatim>\<open>RTCPeerConnection\<close>) and emits messages on its socket. A handler is a function from
  the client state to the new state and the list of things it did, in order: the
  browser calls it made, the messages it emitted, the errors it logged.

  The browser is not part of the repository, so nothing is assumed about when one of
  its promises resolves: the outcome of every awaited call is an input of the handler
  (a \<open>browser\<close> record holds one outcome per kind of call; no handler makes two calls of
  one kind). A handler is taken to run from its first line to its last without another
  handler of the hook running in between. \<^verbatim>\<open>console.log\<close> lines are left out.
\<close>

datatype track_kind = Audio | Video

record track =
  kind :: track_kind
  label :: string
  enabled :: bool

type_synonym media_stream = "track list"

record sender =
  sender_track :: "track option"

text \<open>
  What the hook can observe of its peer connection: the descriptions that were applied,
  the senders (one per track added), and the remote candidates the browser accepted.
\<close>

record peer_connection =
  localDescription :: "blob option"
  remoteDescription :: "blob option"
  senders :: "sender list"
  remoteCandidates :: "blob list"

record client_socket =
  socket_connected :: bool

record client =
  localStream :: "media_stream option"
  remoteStream :: "media_stream option"
  isScreenSharing :: bool
  connectionStatus :: string
  socketRef :: "client_socket option"
  peerConnectionRef :: "peer_connection option"
  localStreamRef :: "media_stream option"

datatype js_error = JsError string | NonError

datatype 'a outcome = Resolves 'a | Rejects js_error

record browser =
  getUserMedia_result :: "media_stream outcome"
  getDisplayMedia_result :: "media_stream outcome"
  createOffer_result :: "blob outcome"
  createAnswer_result :: "blob outcome"
  setLocalDescription_result :: "unit outcome"
  setRemoteDescription_result :: "unit outcome"
  addIceCandidate_result :: "unit outcome"
  replaceTrack_result :: "unit outcome"

text \<open>Messages the client emits: the payload and the \<^verbatim>\<open>targetId\<close> field.\<close>

datatype signal =
    Emit_offer blob string
  | Emit_answer blob string
  | Emit_ice_candidate blob string

datatype action =
    New_peer_connection
  | Add_track track
  | Create_offer
  | Create_answer
  | Set_local_description blob
  | Set_remote_description blob
  | Add_ice_candidate blob
  | Close_peer_connection
  | Replace_track "track option"
  | Get_user_media
  | Get_display_media
  | Emit signal
  | Console_error string
  | Leave_with_error string

fun starts_with :: "string \<Rightarrow> string \<Rightarrow> bool" where
  "starts_with s [] = True"
| "starts_with [] (p # ps) = False"
| "starts_with (x # xs) (p # ps) = (x = p \<and> starts_with xs ps)"

text \<open>\<^verbatim>\<open>String.prototype.includes\<close>.\<close>

fun includes_str :: "string \<Rightarrow> string \<Rightarrow> bool" where
  "includes_str [] p = (p = [])"
| "includes_str (x # xs) p = (starts_with (x # xs) p \<or> includes_str xs p)"

definition getVideoTracks :: "media_stream \<Rightarrow> track list" where
  "getVideoTracks stream = filter (\<lambda>t. kind t = Video) stream"

definition initializeMedia ::
  "browser \<Rightarrow> client \<Rightarrow> media_stream outcome \<times> client \<times> action list" where
  "initializeMedia br c =
     (let c1 = c\<lparr>connectionStatus := ''Getting camera access...''\<rparr> in
      case getUserMedia_result br of
        Resolves stream \<Rightarrow>
          (Resolves stream,
           c1\<lparr>localStream := Some stream, localStreamRef := Some stream,
              connectionStatus := ''Media ready''\<rparr>,
           [Get_user_media])
      | Rejects err \<Rightarrow>
          let errorMessage = (case err of JsError m \<Rightarrow> m | NonError \<Rightarrow> ''Unknown error'') in
          (Rejects err, c1,
           [Get_user_media, Console_error ''Failed to get media stream'',
            Leave_with_error
              (if includes_str errorMessage ''Permission denied''
                  \<or> includes_str errorMessage ''NotAllowedError''
               then ''Camera access denied. Please allow camera permissions and try again.''
               else if includes_str errorMessage ''NotFoundError''
               then ''No camera found. Please connect a camera and try again.''
               else ''Media access failed: '' @ errorMessage)]))"

text \<open>
  \<^verbatim>\<open>createPeerConnection\<close>: a new connection with one sender per track of the local
  stream, stored in the ref and returned.
\<close>

definition createPeerConnection :: "client \<Rightarrow> peer_connection \<times> client \<times> action list" where
  "createPeerConnection c =
     (let tracks = (case localStreamRef c of None \<Rightarrow> [] | Some stream \<Rightarrow> stream);
          pc = \<lparr>localDescription = None, remoteDescription = None,
                senders = map (\<lambda>t. \<lparr>sender_track = Some t\<rparr>) tracks,
                remoteCandidates = []\<rparr>
      in (pc, c\<lparr>peerConnectionRef := Some pc\<rparr>, New_peer_connection # map Add_track tracks))"

text \<open>
  The \<^verbatim>\<open>onicecandidate\<close> handler that \<^verbatim>\<open>createPeerConnection\<close> installs; the event's
  candidate is null when gathering ends.
\<close>

definition onicecandidate :: "blob option \<Rightarrow> client \<Rightarrow> action list" where
  "onicecandidate candidate c =
     (case candidate of
        None \<Rightarrow> []
      | Some cand \<Rightarrow>
          if socketRef c \<noteq> None then [Emit (Emit_ice_candidate cand ''broadcast'')] else [])"

definition ontrack :: "media_stream \<Rightarrow> client \<Rightarrow> client" where
  "ontrack stream c = c\<lparr>remoteStream := Some stream, connectionStatus := ''Video call active''\<rparr>"

definition createOffer :: "string \<Rightarrow> browser \<Rightarrow> client \<Rightarrow> client \<times> action list" where
  "createOffer targetUserId br c =
     (let (pc, c1, a1) = (case peerConnectionRef c of
                            None \<Rightarrow> createPeerConnection c
                          | Some pc0 \<Rightarrow> (pc0, c, []))
      in case createOffer_result br of
           Rejects err \<Rightarrow> (c1, a1 @ [Create_offer, Console_error ''Error creating offer''])
         | Resolves offer \<Rightarrow>
             (case setLocalDescription_result br of
                Rejects err \<Rightarrow>
                  (c1, a1 @ [Create_offer, Set_local_description offer,
                             Console_error ''Error creating offer''])
              | Resolves u \<Rightarrow>
                  (c1\<lparr>peerConnectionRef := Some (pc\<lparr>localDescription := Some offer\<rparr>)\<rparr>,
                   a1 @ [Create_offer, Set_local_description offer]
                      @ (if socketRef c1 \<noteq> None
                         then [Emit (Emit_offer offer targetUserId)] else []))))"

definition handleOffer :: "blob \<Rightarrow> string \<Rightarrow> browser \<Rightarrow> client \<Rightarrow> client \<times> action list" where
  "handleOffer offer senderId br c =
     (let (pc, c1, a1) = (case peerConnectionRef c of
                            None \<Rightarrow> createPeerConnection c
                          | Some pc0 \<Rightarrow> (pc0, c, []))
      in case setRemoteDescription_result br of
           Rejects err \<Rightarrow>
             (c1, a1 @ [Set_remote_description offer, Console_error ''Error handling offer''])
         | Resolves u \<Rightarrow>
             let pc1 = pc\<lparr>remoteDescription := Some offer\<rparr>;
                 c2 = c1\<lparr>peerConnectionRef := Some pc1\<rparr>
             in (case createAnswer_result br of
                   Rejects err \<Rightarrow>
                     (c2, a1 @ [Set_remote_description offer, Create_answer,
                                Console_error ''Error handling offer''])
                 | Resolves answer \<Rightarrow>
                     (case setLocalDescription_result br of
                        Rejects err \<Rightarrow>
                          (c2, a1 @ [Set_remote_description offer, Create_answer,
                                     Set_local_description answer,
                                     Console_error ''Error handling offer''])
                      | Resolves v \<Rightarrow>
                          (c2\<lparr>peerConnectionRef := Some (pc1\<lparr>localDescription := Some answer\<rparr>)\<rparr>,
                           a1 @ [Set_remote_description offer, Create_answer,
                                 Set_local_description answer]
                              @ (if socketRef c2 \<noteq> None
                                 then [Emit (Emit_answer answer senderId)] else [])))))"

definition handleAnswer :: "blob \<Rightarrow> browser \<Rightarrow> client \<Rightarrow> client \<times> action list" where
  "handleAnswer answer br c =
     (case peerConnectionRef c of
        None \<Rightarrow> (c, [])
      | Some pc \<Rightarrow>
          (case setRemoteDescription_result br of
             Rejects err \<Rightarrow>
               (c, [Set_remote_description answer, Console_error ''Error handling answer''])
           | Resolves u \<Rightarrow>
               (c\<lparr>peerConnectionRef := Some (pc\<lparr>remoteDescription := Some answer\<rparr>)\<rparr>,
                [Set_remote_description answer])))"

definition handleIceCandidate :: "blob \<Rightarrow> browser \<Rightarrow> client \<Rightarrow> client \<times> action list" where
  "handleIceCandidate candidate br c =
     (case peerConnectionRef c of
        None \<Rightarrow> (c, [])
      | Some pc \<Rightarrow>
          (case addIceCandidate_result br of
             Rejects err \<Rightarrow>
               (c, [Add_ice_candidate candidate, Console_error ''Error handling ICE candidate''])
           | Resolves u \<Rightarrow>
               (c\<lparr>peerConnectionRef :=
                    Some (pc\<lparr>remoteCandidates := remoteCandidates pc @ [candidate]\<rparr>)\<rparr>,
                [Add_ice_candidate candidate])))"

subsection \<open>The socket's handlers (\<^verbatim>\<open>initializeSocket\<close>)\<close>

definition socket_on_offer :: "blob \<Rightarrow> string \<Rightarrow> browser \<Rightarrow> client \<Rightarrow> client \<times> action list" where
  "socket_on_offer offer senderId br c = handleOffer offer senderId br c"

definition socket_on_answer :: "blob \<Rightarrow> string \<Rightarrow> browser \<Rightarrow> client \<Rightarrow> client \<times> action list" where
  "socket_on_answer answer senderId br c = handleAnswer answer br c"

definition socket_on_ice_candidate ::
  "blob \<Rightarrow> string \<Rightarrow> browser \<Rightarrow> client \<Rightarrow> client \<times> action list" where
  "socket_on_ice_candidate candidate senderId br c = handleIceCandidate candidate br c"

text \<open>The user-joined handler together with the one-second timer it starts.\<close>

definition socket_on_user_joined ::
  "string \<Rightarrow> string \<Rightarrow> browser \<Rightarrow> client \<Rightarrow> client \<times> action list" where
  "socket_on_user_joined userId newUserName br c =
     (let c1 = c\<lparr>connectionStatus := newUserName @ '' joined the call''\<rparr> in
      if peerConnectionRef c1 \<noteq> None \<and> localStreamRef c1 \<noteq> None
      then createOffer userId br c1 else (c1, []))"

definition socket_on_user_left :: "client \<Rightarrow> client \<times> action list" where
  "socket_on_user_left c =
     (let c1 = c\<lparr>connectionStatus := ''Other participant left'', remoteStream := None\<rparr> in
      case peerConnectionRef c1 of
        None \<Rightarrow> (c1, [])
      | Some pc \<Rightarrow> (c1\<lparr>peerConnectionRef := None\<rparr>, [Close_peer_connection]))"

subsection \<open>Screen sharing (\<^verbatim>\<open>toggleScreenShare\<close>)\<close>

definition is_video_sender :: "sender \<Rightarrow> bool" where
  "is_video_sender s = (case sender_track s of None \<Rightarrow> False | Some t \<Rightarrow> kind t = Video)"

fun first_index :: "('a \<Rightarrow> bool) \<Rightarrow> 'a list \<Rightarrow> nat option" where
  "first_index P [] = None"
| "first_index P (x # xs) = (if P x then Some 0 else map_option Suc (first_index P xs))"

text \<open>
  The block "Replace video track in peer connection" of the start branch: the first
  sender that carries a video track gets the first video track of the screen stream
  (\<^verbatim>\<open>undefined\<close> when the stream has none). \<open>Inl\<close> is the rejection of
  \<^verbatim>\<open>replaceTrack\<close>, which leaves the \<^verbatim>\<open>try\<close> block.
\<close>

definition replace_video_track ::
  "media_stream \<Rightarrow> browser \<Rightarrow> client \<Rightarrow> action list + client \<times> action list" where
  "replace_video_track screenStream br c =
     (case peerConnectionRef c of
        None \<Rightarrow> Inr (c, [])
      | Some pc \<Rightarrow>
          (case localStreamRef c of
             None \<Rightarrow> Inr (c, [])
           | Some ls \<Rightarrow>
               let videoTrack = (case getVideoTracks screenStream of
                                   [] \<Rightarrow> None | t # ts \<Rightarrow> Some t)
               in (case first_index is_video_sender (senders pc) of
                     None \<Rightarrow> Inr (c, [])
                   | Some i \<Rightarrow>
                       (case replaceTrack_result br of
                          Rejects err \<Rightarrow> Inl [Replace_track videoTrack]
                        | Resolves u \<Rightarrow>
                            Inr (c\<lparr>peerConnectionRef :=
                                     Some (pc\<lparr>senders :=
                                       (senders pc)[i := \<lparr>sender_track = videoTrack\<rparr>]\<rparr>)\<rparr>,
                                 [Replace_track videoTrack])))))"

definition toggleScreenShare :: "browser \<Rightarrow> client \<Rightarrow> client \<times> action list" where
  "toggleScreenShare br c =
     (if \<not> isScreenSharing c then
        (case getDisplayMedia_result br of
           Rejects err \<Rightarrow> (c, [Get_display_media, Console_error ''Screen share error''])
         | Resolves screenStream \<Rightarrow>
             (case replace_video_track screenStream br c of
                Inl a \<Rightarrow> (c, Get_display_media # a @ [Console_error ''Screen share error''])
              | Inr (c1, a) \<Rightarrow>
                  let c2 = c1\<lparr>isScreenSharing := True\<rparr> in
                  (case getVideoTracks screenStream of
                     [] \<Rightarrow> (c2, Get_display_media # a @ [Console_error ''Screen share error''])
                   | t # ts \<Rightarrow> (c2, Get_display_media # a))))
      else
        (case initializeMedia br (c\<lparr>isScreenSharing := False\<rparr>) of
           (Rejects err, c1, a) \<Rightarrow> (c1, a @ [Console_error ''Screen share error''])
         | (Resolves stream, c1, a) \<Rightarrow> (c1, a)))"

text \<open>The \<^verbatim>\<open>onended\<close> handler the start branch puts on the screen stream's video track.\<close>

definition screen_onended :: "browser \<Rightarrow> client \<Rightarrow> client \<times> action list" where
  "screen_onended br c =
     (case initializeMedia br (c\<lparr>isScreenSharing := False\<rparr>) of (r, c1, a) \<Rightarrow> (c1, a))"

subsection \<open>Runs of the client\<close>

datatype client_event =
    Recv_offer blob string
  | Recv_answer blob string
  | Recv_ice_candidate blob string
  | Recv_user_joined string string
  | Recv_user_left
  | Local_candidate "blob option"
  | Remote_track media_stream
  | Toggle_screen_share
  | Screen_ended

fun client_step :: "client \<Rightarrow> client_event \<times> browser \<Rightarrow> client \<times> action list" where
  "client_step c (Recv_offer offer senderId, br) = socket_on_offer offer senderId br c"
| "client_step c (Recv_answer answer senderId, br) = socket_on_answer answer senderId br c"
| "client_step c (Recv_ice_candidate cand senderId, br) = socket_on_ice_candidate cand senderId br c"
| "client_step c (Recv_user_joined userId nm, br) = socket_on_user_joined userId nm br c"
| "client_step c (Recv_user_left, br) = socket_on_user_left c"
| "client_step c (Local_candidate cand, br) = (c, onicecandidate cand c)"
| "client_step c (Remote_track stream, br) = (ontrack stream c, [])"
| "client_step c (Toggle_screen_share, br) = toggleScreenShare br c"
| "client_step c (Screen_ended, br) = screen_onended br c"

text \<open>A run returns the last state and everything done on the way.\<close>

fun client_run :: "client \<Rightarrow> (client_event \<times> browser) list \<Rightarrow> client \<times> action list" where
  "client_run c [] = (c, [])"
| "client_run c (e # es) =
     (case client_step c e of (c1, a1) \<Rightarrow>
        (case client_run c1 es of (c2, a2) \<Rightarrow> (c2, a1 @ a2)))"

subsection \<open>Predicates on server states\<close>

text \<open>No participant is listed twice in a session.\<close>

definition distinct_members :: "server \<Rightarrow> bool" where
  "distinct_members s =
     (\<forall>rid rm. rooms s rid = Some rm \<longrightarrow> distinct (map user_id (users rm)))"

text \<open>No two connected sockets have the same id.\<close>

definition distinct_sockets :: "server \<Rightarrow> bool" where
  "distinct_sockets s = distinct (map sid (sockets s))"


subsection \<open>Example states\<close>

definition demo_id :: string where
  "demo_id = ''k3j9x2m1q''"

definition ann :: user where
  "ann = \<lparr>user_id = ''sockA'', user_name = ''Ann'', joinedAt = 1\<rparr>"

definition bob :: user where
  "bob = \<lparr>user_id = ''sockB'', user_name = ''User 2'', joinedAt = 2\<rparr>"

definition sockA :: socket where
  "sockA = \<lparr>sid = ''sockA'', roomId = Some demo_id, userName = Some ''Ann'', joined = [demo_id]\<rparr>"

definition sockB :: socket where
  "sockB = \<lparr>sid = ''sockB'', roomId = Some demo_id, userName = Some ''User 2'', joined = [demo_id]\<rparr>"

definition fresh_socket :: "string \<Rightarrow> socket" where
  "fresh_socket me = \<lparr>sid = me, roomId = None, userName = None, joined = []\<rparr>"

text \<open>One participant in the session, a second connection not yet in any session.\<close>

definition solo :: server where
  "solo = \<lparr>rooms = [demo_id \<mapsto> \<lparr>room_id = demo_id, users = [ann], createdAt = 0\<rparr>],
           sockets = [sockA, fresh_socket ''sockB'']\<rparr>"

text \<open>Two participants in the session, a third connection not in any session.\<close>

definition two_party :: server where
  "two_party = \<lparr>rooms = [demo_id \<mapsto> \<lparr>room_id = demo_id, users = [ann, bob], createdAt = 0\<rparr>],
                sockets = [sockA, sockB, fresh_socket ''sockC'']\<rparr>"

definition solo_events :: "event list" where
  "solo_events =
     [Connect ''sockA'', Create_room ''sockA'' ''0.k3j9x2m1q4'' 0,
      Join_room ''sockA'' demo_id (Some ''Ann'') 1, Connect ''sockB'']"

definition two_party_events :: "event list" where
  "two_party_events = solo_events @ [Join_room ''sockB'' demo_id None 2, Connect ''sockC'']"

text \<open>A client that has its camera stream and its socket, and no peer connection yet.\<close>

definition mic :: track where
  "mic = \<lparr>kind = Audio, label = ''mic'', enabled = True\<rparr>"

definition cam :: track where
  "cam = \<lparr>kind = Video, label = ''camera'', enabled = True\<rparr>"

definition screen_track :: track where
  "screen_track = \<lparr>kind = Video, label = ''screen'', enabled = True\<rparr>"

definition ready_client :: client where
  "ready_client =
     \<lparr>localStream = Some [mic, cam], remoteStream = None, isScreenSharing = False,
      connectionStatus = ''Connected to room'', socketRef = Some \<lparr>socket_connected = True\<rparr>,
      peerConnectionRef = None, localStreamRef = Some [mic, cam]\<rparr>"

text \<open>A browser in which every call succeeds.\<close>

definition all_ok :: browser where
  "all_ok =
     \<lparr>getUserMedia_result = Resolves [mic, cam],
      getDisplayMedia_result = Resolves [screen_track],
      createOffer_result = Resolves ''offer-sdp'',
      createAnswer_result = Resolves ''answer-sdp'',
      setLocalDescription_result = Resolves (),
      setRemoteDescription_result = Resolves (),
      addIceCandidate_result = Resolves (),
      replaceTrack_result = Resolves ()\<rparr>"

text \<open>The same client after it has answered an offer, and while it shares its screen.\<close>

definition in_call :: client where
  "in_call = ready_client\<lparr>peerConnectionRef :=
     Some \<lparr>localDescription = Some ''answer-sdp'', remoteDescription = Some ''offer-sdp'',
           senders = [\<lparr>sender_track = Some mic\<rparr>, \<lparr>sender_track = Some cam\<rparr>],
           remoteCandidates = []\<rparr>\<rparr>"

definition sharing :: client where
  "sharing = ready_client\<lparr>isScreenSharing := True, peerConnectionRef :=
     Some \<lparr>localDescription = Some ''answer-sdp'', remoteDescription = Some ''offer-sdp'',
           senders = [\<lparr>sender_track = Some mic\<rparr>, \<lparr>sender_track = Some screen_track\<rparr>],
           remoteCandidates = []\<rparr>\<rparr>"

section \<open>Properties of the server\<close>

lemma find_user_None: "find (\<lambda>u. user_id u = me) us = None \<longleftrightarrow> me \<notin> set (map user_id us)"
  by (induction us) auto

lemma find_user_Some: "me \<in> set (map user_id us) \<Longrightarrow> \<exists>u. find (\<lambda>u. user_id u = me) us = Some u"
  by (induction us) auto

lemma reachable_run: "reachable s \<Longrightarrow> reachable (run s es)"
  by (induction es arbitrary: s) (auto intro: reachable_step)

lemma string_of_nat_2: "string_of_nat (Suc (Suc 0)) = ''2''"
  by (simp add: string_of_nat.simps digit_def)

lemma run_append: "run s (es @ fs) = run (run s es) fs"
  by (induction es arbitrary: s) auto

lemma run_solo: "run init solo_events = solo"
  by (simp add: solo_events_def solo_def init_def step_def connected_def create_room_def
      join_room_def generateRoomId_def demo_id_def to_room_def in_room_def join_socket_def
      ann_def sockA_def fresh_socket_def Let_def)

lemma run_two_party: "run init two_party_events = two_party"
proof -
  have "run init two_party_events = run solo [Join_room ''sockB'' demo_id None 2, Connect ''sockC'']"
    by (simp add: two_party_events_def run_append run_solo del: run.simps)
  also have "\<dots> = two_party"
    by (simp add: solo_def two_party_def step_def connected_def join_room_def demo_id_def
        to_room_def in_room_def join_socket_def ann_def bob_def sockA_def sockB_def
        fresh_socket_def string_of_nat_2 Let_def)
  finally show ?thesis .
qed

lemma reachable_solo: "reachable solo"
  using reachable_run [OF reachable_init, of solo_events] by (simp add: run_solo)

lemma reachable_two_party: "reachable two_party"
  using reachable_run [OF reachable_init, of two_party_events] by (simp add: run_two_party)

lemma find_user_None_image: "find (\<lambda>u. user_id u = me) us = None \<longleftrightarrow> me \<notin> user_id ` set us"
  by (induction us) auto

lemma join_room_distinct:
  "distinct_members s \<Longrightarrow> distinct_members (fst (join_room me rid uname now s))"
  by (auto simp: distinct_members_def join_room_def Let_def find_user_None_image
      split: option.splits if_splits)

lemma on_disconnect_distinct:
  "distinct_members s \<Longrightarrow> distinct_members (fst (on_disconnect me s))"
  by (auto simp: distinct_members_def on_disconnect_def Let_def distinct_map_filter
      split: option.splits if_splits)

lemma step_distinct: "distinct_members s \<Longrightarrow> distinct_members (fst (step s e))"
proof (cases e)
  case (Join_room me rid uname now)
  then show "distinct_members s \<Longrightarrow> ?thesis"
    using join_room_distinct by (simp add: step_def)
next
  case (Disconnect me)
  then show "distinct_members s \<Longrightarrow> ?thesis"
    using on_disconnect_distinct by (simp add: step_def)
qed (auto simp: step_def distinct_members_def create_room_def on_offer_def on_answer_def
      on_ice_candidate_def on_user_status_def Let_def split: option.splits)

lemma reachable_distinct: "reachable s \<Longrightarrow> distinct_members s"
  by (induction rule: reachable.induct) (auto simp: step_distinct, simp add: distinct_members_def init_def)

lemma count_member:
  "distinct (map user_id us) \<Longrightarrow> me \<in> set (map user_id us)
   \<Longrightarrow> length (filter (\<lambda>u. user_id u = me) us) = 1"
proof (induction us)
  case Nil
  then show ?case by simp
next
  case (Cons u us)
  show ?case
  proof (cases "user_id u = me")
    case True
    with Cons.prems have "me \<notin> user_id ` set us" by auto
    then have "filter (\<lambda>u. user_id u = me) us = []"
      by (auto simp: filter_empty_conv)
    with True show ?thesis by simp
  next
    case False
    with Cons show ?thesis by auto
  qed
qed

lemma map_sid_join_socket: "sid \<circ> join_socket me rid nm = sid"
  by (auto simp: fun_eq_iff join_socket_def)

lemma step_distinct_sockets: "distinct_sockets s \<Longrightarrow> distinct_sockets (fst (step s e))"
  by (cases e)
    (auto simp: step_def distinct_sockets_def connected_def create_room_def join_room_def
      on_offer_def on_answer_def on_ice_candidate_def on_user_status_def on_disconnect_def
      Let_def map_sid_join_socket distinct_map_filter split: option.splits)

lemma reachable_distinct_sockets: "reachable s \<Longrightarrow> distinct_sockets s"
proof (induction rule: reachable.induct)
  case reachable_init
  show ?case by (simp add: distinct_sockets_def init_def)
next
  case (reachable_step s e)
  then show ?case by (simp add: step_distinct_sockets)
qed

lemma set_to_room:
  "set (to_room s me t m) =
     {(sid x, m) | x. x \<in> set (sockets s) \<and> sid x \<noteq> me \<and> in_room t x}"
  by (auto simp: to_room_def)

lemma filter_sid_single:
  "distinct (map sid ts) \<Longrightarrow> t \<in> set (map sid ts)
   \<Longrightarrow> map sid (filter (\<lambda>x. sid x = t) ts) = [t]"
proof (induction ts)
  case Nil
  then show ?case by simp
next
  case (Cons a ts)
  show ?case
  proof (cases "sid a = t")
    case True
    with Cons.prems have "t \<notin> sid ` set ts" by auto
    then have "filter (\<lambda>x. sid x = t) ts = []"
      by (auto simp: filter_empty_conv)
    with True show ?thesis by simp
  next
    case False
    with Cons show ?thesis by auto
  qed
qed

lemma to_room_single:
  assumes "distinct_sockets s" and "connected s t" and "t \<noteq> me"
    and "\<forall>x\<in>set (sockets s). t \<notin> set (joined x)"
  shows "to_room s me t m = [(t, m)]"
proof -
  have eq: "filter (\<lambda>x. sid x \<noteq> me \<and> in_room t x) (sockets s) = filter (\<lambda>x. sid x = t) (sockets s)"
    using assms(3,4) by (intro filter_cong) (auto simp: in_room_def)
  have "map sid (filter (\<lambda>x. sid x = t) (sockets s)) = [t]"
    using assms(1,2) by (simp add: filter_sid_single distinct_sockets_def connected_def)
  then show ?thesis
    by (auto simp: to_room_def eq)
qed

lemma to_room_none:
  assumes "\<forall>x\<in>set (sockets s). sid x = me \<or> \<not> in_room t x"
  shows "to_room s me t m = []"
  using assms by (auto simp: to_room_def filter_empty_conv)








subsection \<open>Relaying negotiation messages\<close>

text \<open>
  Claim C2, as the code has it. An offer, answer or ice-candidate handler changes nothing
  in the server state (nothing is queued or stored) and sends the payload, stamped with
  the sender's own socket id, to exactly the connected sockets other than the sender
  that are in the Socket.IO room named by \<open>targetId\<close>: the socket whose id is
  \<open>targetId\<close>, and every socket that entered a session of that name. When no such
  socket exists nothing at all is emitted, so the sender hears nothing either. In a
  reachable state, when \<open>targetId\<close> is the id of a connected socket other than the
  sender and no socket entered a room of that name, that socket is the only recipient.
\<close>

theorem relay_reaches_room_members:
  assumes "(h, K) \<in> {(on_offer, Offer), (on_answer, Answer), (on_ice_candidate, Ice_candidate)}"
  shows "fst (h me p t s) = s
       \<and> set (snd (h me p t s)) =
           {(sid x, K p me) | x. x \<in> set (sockets s) \<and> sid x \<noteq> me \<and> in_room t x}
       \<and> ((\<forall>x\<in>set (sockets s). sid x = me \<or> \<not> in_room t x) \<longrightarrow> snd (h me p t s) = [])
       \<and> (reachable s \<and> connected s t \<and> t \<noteq> me \<and> (\<forall>x\<in>set (sockets s). t \<notin> set (joined x))
            \<longrightarrow> snd (h me p t s) = [(t, K p me)])"
proof -
  have out: "h me p t s = (s, to_room s me t (K p me))"
    using assms by (auto simp: on_offer_def on_answer_def on_ice_candidate_def)
  show ?thesis
    unfolding out
    using to_room_none [of s me t "K p me"] to_room_single [of s t me "K p me"]
      reachable_distinct_sockets [of s]
    by (simp add: set_to_room)
qed

theorem relay_reaches_room_members_witness:
  "reachable two_party \<and> connected two_party ''sockB''
   \<and> on_offer ''sockA'' ''sdp'' ''sockB'' two_party = (two_party, [(''sockB'', Offer ''sdp'' ''sockA'')])
   \<and> on_ice_candidate ''sockA'' ''cand'' ''broadcast'' two_party = (two_party, [])"
proof -
  have a: "(on_offer, Offer) \<in> {(on_offer, Offer), (on_answer, Answer), (on_ice_candidate, Ice_candidate)}"
    by simp
  have b: "(on_ice_candidate, Ice_candidate) \<in> {(on_offer, Offer), (on_answer, Answer), (on_ice_candidate, Ice_candidate)}"
    by simp
  have c: "connected two_party ''sockB''"
    by (simp add: connected_def two_party_def sockA_def sockB_def fresh_socket_def)
  have j: "\<forall>x\<in>set (sockets two_party). ''sockB'' \<notin> set (joined x)"
    by (simp add: two_party_def sockA_def sockB_def fresh_socket_def demo_id_def)
  have n: "\<forall>x\<in>set (sockets two_party). sid x = ''sockA'' \<or> \<not> in_room ''broadcast'' x"
    by (simp add: two_party_def sockA_def sockB_def fresh_socket_def demo_id_def in_room_def)
  show ?thesis
    using relay_reaches_room_members [OF a, of "''sockA''" "''sdp''" "''sockB''" two_party]
      relay_reaches_room_members [OF b, of "''sockA''" "''cand''" "''broadcast''" two_party]
      c j n reachable_two_party
    by (simp add: prod_eq_iff)
qed

text \<open>
  The claim as the spec words it (only the connection named by \<open>targetId\<close> receives)
  fails when \<open>targetId\<close> is the name of a session: no connection has that id, and the
  other member of the session receives the offer.
\<close>

theorem relay_not_only_named_connection_counterexample:
  "on_offer ''sockA'' ''sdp'' demo_id two_party = (two_party, [(''sockB'', Offer ''sdp'' ''sockA'')])
   \<and> ''sockB'' \<noteq> demo_id \<and> \<not> connected two_party demo_id"
  by (simp add: on_offer_def to_room_def in_room_def two_party_def sockA_def sockB_def
      fresh_socket_def demo_id_def connected_def)


subsection \<open>Sessions and their members\<close>




text \<open>
  Claim C4 (every identifier returned by a creation is unique among the live sessions).
  The code draws the identifier and stores the new session under it without looking at
  the registry. Here the draw repeats the identifier of a live session that has one
  participant: the creation returns that identifier, and the live session is replaced
  by an empty one.
\<close>

theorem create_room_collision:
  "map_option users (rooms solo demo_id) = Some [ann]
   \<and> step solo (Create_room ''sockB'' ''0.k3j9x2m1q4'' 5)
       = (solo\<lparr>rooms := [demo_id \<mapsto> \<lparr>room_id = demo_id, users = [], createdAt = 5\<rparr>]\<rparr>,
          [(''sockB'', Room_created demo_id)])"
  by (simp add: solo_def step_def connected_def create_room_def generateRoomId_def
      demo_id_def sockA_def fresh_socket_def Let_def)

text \<open>
  Claim C8. A join request for a session that already has two or more participants,
  from a connected socket that is not one of them, is answered with "Room is full" to
  the requester alone, and the server state (registry and sockets) is unchanged: nothing
  is queued.
\<close>

theorem join_full_rejected:
  assumes "connected s me" and "rooms s rid = Some rm"
    and "me \<notin> set (map user_id (users rm))" and "2 \<le> length (users rm)"
  shows "step s (Join_room me rid uname now) = (s, [(me, Error_msg ''Room is full'')])"
proof -
  have "find (\<lambda>u. user_id u = me) (users rm) = None"
    using assms(3) by (simp add: find_user_None)
  with assms show ?thesis
    by (simp add: step_def join_room_def)
qed

theorem join_full_rejected_witness:
  "connected two_party ''sockC''
   \<and> rooms two_party demo_id = Some \<lparr>room_id = demo_id, users = [ann, bob], createdAt = 0\<rparr>
   \<and> ''sockC'' \<notin> set (map user_id [ann, bob]) \<and> 2 \<le> length [ann, bob]
   \<and> step two_party (Join_room ''sockC'' demo_id (Some ''Cy'') 9)
       = (two_party, [(''sockC'', Error_msg ''Room is full'')])"
proof -
  have c: "connected two_party ''sockC''"
    by (simp add: connected_def two_party_def sockA_def sockB_def fresh_socket_def)
  have r: "rooms two_party demo_id = Some \<lparr>room_id = demo_id, users = [ann, bob], createdAt = 0\<rparr>"
    by (simp add: two_party_def)
  have m: "''sockC'' \<notin> set (map user_id (users \<lparr>room_id = demo_id, users = [ann, bob], createdAt = 0\<rparr>))"
    by (simp add: ann_def bob_def)
  have l: "2 \<le> length (users \<lparr>room_id = demo_id, users = [ann, bob], createdAt = 0\<rparr>)"
    by simp
  show ?thesis
    using c r m l join_full_rejected [OF c r m l, of "Some ''Cy''" 9] by simp
qed

text \<open>
  Claim C9. In a reachable state, a join request from a connected socket that is already
  a participant of the session leaves the server state unchanged and answers the
  requester with room-joined, carrying the current membership list and the initiator
  flag (whether the requester is the first participant); the requester is in that list
  exactly once.
\<close>

theorem duplicate_join_idempotent:
  assumes "reachable s" and "connected s me" and "rooms s rid = Some rm"
    and "me \<in> set (map user_id (users rm))"
  shows "step s (Join_room me rid uname now)
           = (s, [(me, Room_joined rid (users rm) (user_id (hd (users rm)) = me))])
         \<and> length (filter (\<lambda>u. user_id u = me) (users rm)) = 1"
proof -
  obtain u where u: "find (\<lambda>u. user_id u = me) (users rm) = Some u"
    using find_user_Some [OF assms(4)] by blast
  have ne: "users rm \<noteq> []" using assms(4) by auto
  have first: "step s (Join_room me rid uname now)
           = (s, [(me, Room_joined rid (users rm) (user_id (hd (users rm)) = me))])"
    using assms(2,3) u ne by (cases "users rm") (simp_all add: step_def join_room_def)
  have "distinct (map user_id (users rm))"
    using reachable_distinct [OF assms(1)] assms(3) by (simp add: distinct_members_def)
  then have "length (filter (\<lambda>u. user_id u = me) (users rm)) = 1"
    using assms(4) by (simp add: count_member)
  with first show ?thesis by simp
qed


theorem duplicate_join_idempotent_witness:
  "reachable two_party \<and> connected two_party ''sockB''
   \<and> rooms two_party demo_id = Some \<lparr>room_id = demo_id, users = [ann, bob], createdAt = 0\<rparr>
   \<and> ''sockB'' \<in> set (map user_id [ann, bob])
   \<and> step two_party (Join_room ''sockB'' demo_id None 7)
       = (two_party, [(''sockB'', Room_joined demo_id [ann, bob] False)])
   \<and> length (filter (\<lambda>u. user_id u = ''sockB'') [ann, bob]) = 1"
proof -
  have c: "connected two_party ''sockB''"
    by (simp add: connected_def two_party_def sockA_def sockB_def fresh_socket_def)
  have r: "rooms two_party demo_id = Some \<lparr>room_id = demo_id, users = [ann, bob], createdAt = 0\<rparr>"
    by (simp add: two_party_def)
  have m: "''sockB'' \<in> set (map user_id (users \<lparr>room_id = demo_id, users = [ann, bob], createdAt = 0\<rparr>))"
    by (simp add: ann_def bob_def)
  show ?thesis
    using c r m reachable_two_party
      duplicate_join_idempotent [OF reachable_two_party c r m, of None 7]
    by (simp add: ann_def bob_def)
qed

section \<open>Properties of the client\<close>

lemma answer_offer_in_call:
  "handleOffer ''offer-sdp'' ''sockA'' all_ok ready_client =
     (in_call, [New_peer_connection, Add_track mic, Add_track cam,
                Set_remote_description ''offer-sdp'', Create_answer,
                Set_local_description ''answer-sdp'', Emit (Emit_answer ''answer-sdp'' ''sockA'')])"
  by (simp add: handleOffer_def createPeerConnection_def ready_client_def all_ok_def in_call_def
      Let_def)

lemma handleIceCandidate_no_pc:
  "peerConnectionRef c = None \<Longrightarrow> handleIceCandidate cand br c = (c, [])"
  by (simp add: handleIceCandidate_def)

lemma ensure_pc:
  assumes "(case peerConnectionRef c of None \<Rightarrow> createPeerConnection c
            | Some pc0 \<Rightarrow> (pc0, c, [])) = (pc, c1, a1)"
  shows "socketRef c1 = socketRef c \<and> set a1 \<subseteq> insert New_peer_connection (range Add_track)"
  using assms by (auto simp: createPeerConnection_def Let_def split: option.splits)

text \<open>The four ways \<open>handleOffer\<close> can go, by the outcome of the three browser calls.\<close>

lemma handleOffer_trace:
  "\<exists>pre. set pre \<subseteq> insert New_peer_connection (range Add_track) \<and>
     (case setRemoteDescription_result br of
        Rejects err \<Rightarrow>
          snd (handleOffer offer senderId br c)
            = pre @ [Set_remote_description offer, Console_error ''Error handling offer'']
      | Resolves u \<Rightarrow>
          map_option remoteDescription (peerConnectionRef (fst (handleOffer offer senderId br c)))
            = Some (Some offer) \<and>
          (case createAnswer_result br of
             Rejects err \<Rightarrow>
               snd (handleOffer offer senderId br c)
                 = pre @ [Set_remote_description offer, Create_answer,
                          Console_error ''Error handling offer'']
           | Resolves answer \<Rightarrow>
               (case setLocalDescription_result br of
                  Rejects err \<Rightarrow>
                    snd (handleOffer offer senderId br c)
                      = pre @ [Set_remote_description offer, Create_answer,
                               Set_local_description answer,
                               Console_error ''Error handling offer'']
                | Resolves v \<Rightarrow>
                    map_option localDescription
                        (peerConnectionRef (fst (handleOffer offer senderId br c)))
                      = Some (Some answer) \<and>
                    snd (handleOffer offer senderId br c)
                      = pre @ [Set_remote_description offer, Create_answer,
                               Set_local_description answer]
                            @ (if socketRef c \<noteq> None
                               then [Emit (Emit_answer answer senderId)] else []))))"
proof -
  obtain pc c1 a1 where e: "(case peerConnectionRef c of None \<Rightarrow> createPeerConnection c
            | Some pc0 \<Rightarrow> (pc0, c, [])) = (pc, c1, a1)"
    by (metis prod_cases3)
  have s: "socketRef c1 = socketRef c" and a: "set a1 \<subseteq> insert New_peer_connection (range Add_track)"
    using ensure_pc [OF e] by simp_all
  have "case setRemoteDescription_result br of
        Rejects err \<Rightarrow>
          snd (handleOffer offer senderId br c)
            = a1 @ [Set_remote_description offer, Console_error ''Error handling offer'']
      | Resolves u \<Rightarrow>
          map_option remoteDescription (peerConnectionRef (fst (handleOffer offer senderId br c)))
            = Some (Some offer) \<and>
          (case createAnswer_result br of
             Rejects err \<Rightarrow>
               snd (handleOffer offer senderId br c)
                 = a1 @ [Set_remote_description offer, Create_answer,
                          Console_error ''Error handling offer'']
           | Resolves answer \<Rightarrow>
               (case setLocalDescription_result br of
                  Rejects err \<Rightarrow>
                    snd (handleOffer offer senderId br c)
                      = a1 @ [Set_remote_description offer, Create_answer,
                               Set_local_description answer,
                               Console_error ''Error handling offer'']
                | Resolves v \<Rightarrow>
                    map_option localDescription
                        (peerConnectionRef (fst (handleOffer offer senderId br c)))
                      = Some (Some answer) \<and>
                    snd (handleOffer offer senderId br c)
                      = a1 @ [Set_remote_description offer, Create_answer,
                               Set_local_description answer]
                            @ (if socketRef c \<noteq> None
                               then [Emit (Emit_answer answer senderId)] else [])))"
    by (simp add: handleOffer_def e s Let_def split: outcome.splits)
  with a show ?thesis by blast
qed


lemma not_in_prefix:
  assumes "set pre \<subseteq> insert New_peer_connection (range Add_track)"
  shows "Create_answer \<notin> set pre" and "Emit sig \<notin> set pre"
  using assms by auto

subsection \<open>Local candidates\<close>

text \<open>
  Claim C1 (a locally generated candidate is sent targeted at the known remote
  participant, as offers and answers are). The client below has just answered the
  offer of \<open>sockA\<close> and sent its answer targeted at \<open>sockA\<close>. Its next local candidate
  goes out with the target \<open>broadcast\<close>, and the server, relaying that message in the
  two-party session, delivers it to nobody.
\<close>

theorem candidate_target_is_broadcast:
  "handleOffer ''offer-sdp'' ''sockA'' all_ok ready_client =
     (in_call, [New_peer_connection, Add_track mic, Add_track cam,
                Set_remote_description ''offer-sdp'', Create_answer,
                Set_local_description ''answer-sdp'', Emit (Emit_answer ''answer-sdp'' ''sockA'')])
   \<and> onicecandidate (Some ''candidate-1'') in_call
       = [Emit (Emit_ice_candidate ''candidate-1'' ''broadcast'')]
   \<and> on_ice_candidate ''sockB'' ''candidate-1'' ''broadcast'' two_party = (two_party, [])"
proof (intro conjI)
  show "handleOffer ''offer-sdp'' ''sockA'' all_ok ready_client =
     (in_call, [New_peer_connection, Add_track mic, Add_track cam,
                Set_remote_description ''offer-sdp'', Create_answer,
                Set_local_description ''answer-sdp'', Emit (Emit_answer ''answer-sdp'' ''sockA'')])"
    by (rule answer_offer_in_call)
  show "onicecandidate (Some ''candidate-1'') in_call
       = [Emit (Emit_ice_candidate ''candidate-1'' ''broadcast'')]"
    by (simp add: onicecandidate_def in_call_def ready_client_def)
  show "on_ice_candidate ''sockB'' ''candidate-1'' ''broadcast'' two_party = (two_party, [])"
    by (simp add: on_ice_candidate_def to_room_def in_room_def two_party_def sockA_def
        sockB_def fresh_socket_def demo_id_def)
qed

subsection \<open>Remote candidates\<close>

text \<open>
  Claim C5, as the code has it. A remote candidate is handed to the peer connection at
  once when the client has one, and is discarded otherwise; it is never buffered. With
  no peer connection the candidate leaves no trace: every later run of the client goes
  exactly as if the candidate had not arrived. With a peer connection the handler calls
  \<^verbatim>\<open>addIceCandidate\<close> once, immediately; when the browser rejects the call (as it does
  when no remote description is set) the state stays as it was and the error is only
  logged, and when the browser accepts, the candidate is added to the connection.
\<close>

theorem candidate_applied_at_once_or_discarded:
  "(peerConnectionRef c = None \<longrightarrow>
      client_run c ((Recv_ice_candidate cand senderId, br) # evs) = client_run c evs)
   \<and> (peerConnectionRef c = Some pc \<and> addIceCandidate_result br = Rejects err \<longrightarrow>
      fst (client_run c ((Recv_ice_candidate cand senderId, br) # evs)) = fst (client_run c evs)
      \<and> client_step c (Recv_ice_candidate cand senderId, br)
          = (c, [Add_ice_candidate cand, Console_error ''Error handling ICE candidate'']))
   \<and> (peerConnectionRef c = Some pc \<and> addIceCandidate_result br = Resolves () \<longrightarrow>
      client_step c (Recv_ice_candidate cand senderId, br)
        = (c\<lparr>peerConnectionRef := Some (pc\<lparr>remoteCandidates := remoteCandidates pc @ [cand]\<rparr>)\<rparr>,
           [Add_ice_candidate cand]))"
  by (auto simp: socket_on_ice_candidate_def handleIceCandidate_def split: prod.splits)

theorem candidate_applied_at_once_or_discarded_witness:
  "peerConnectionRef ready_client = None
   \<and> client_run ready_client
        [(Recv_ice_candidate ''candidate-1'' ''sockA'', all_ok), (Recv_offer ''offer-sdp'' ''sockA'', all_ok)]
       = client_run ready_client [(Recv_offer ''offer-sdp'' ''sockA'', all_ok)]
   \<and> addIceCandidate_result all_ok = Resolves ()
   \<and> map_option remoteCandidates
        (peerConnectionRef (fst (client_step in_call (Recv_ice_candidate ''candidate-2'' ''sockA'', all_ok))))
       = Some [''candidate-2'']
   \<and> fst (client_step in_call
        (Recv_ice_candidate ''candidate-3'' ''sockA'', all_ok\<lparr>addIceCandidate_result := Rejects NonError\<rparr>))
       = in_call"
proof -
  have n: "peerConnectionRef ready_client = None"
    by (simp add: ready_client_def)
  have ok: "addIceCandidate_result all_ok = Resolves ()"
    by (simp add: all_ok_def)
  have p: "peerConnectionRef in_call =
     Some \<lparr>localDescription = Some ''answer-sdp'', remoteDescription = Some ''offer-sdp'',
           senders = [\<lparr>sender_track = Some mic\<rparr>, \<lparr>sender_track = Some cam\<rparr>],
           remoteCandidates = []\<rparr>"
    by (simp add: in_call_def)
  have r: "addIceCandidate_result (all_ok\<lparr>addIceCandidate_result := Rejects NonError\<rparr>) = Rejects NonError"
    by simp
  show ?thesis
    using n ok p r
      candidate_applied_at_once_or_discarded [of ready_client "''candidate-1''" "''sockA''" all_ok
        "[(Recv_offer ''offer-sdp'' ''sockA'', all_ok)]"]
      candidate_applied_at_once_or_discarded [where c = in_call and br = all_ok
        and cand = "''candidate-2''" and senderId = "''sockA''"]
      candidate_applied_at_once_or_discarded [where c = in_call and err = NonError
        and br = "all_ok\<lparr>addIceCandidate_result := Rejects NonError\<rparr>"
        and cand = "''candidate-3''" and senderId = "''sockA''" and evs = "[]"]
    by simp
qed

text \<open>
  The claim of the spec (an early candidate is buffered and applied once a remote
  description exists) fails: a candidate arrives before any peer connection exists,
  then an offer arrives and is applied. The connection then has its remote description
  and no remote candidate, and \<^verbatim>\<open>addIceCandidate\<close> was never called.
\<close>

theorem early_candidate_dropped_counterexample:
  "map_option remoteDescription (peerConnectionRef (fst (client_run ready_client
        [(Recv_ice_candidate ''candidate-1'' ''sockA'', all_ok),
         (Recv_offer ''offer-sdp'' ''sockA'', all_ok)]))) = Some (Some ''offer-sdp'')
   \<and> map_option remoteCandidates (peerConnectionRef (fst (client_run ready_client
        [(Recv_ice_candidate ''candidate-1'' ''sockA'', all_ok),
         (Recv_offer ''offer-sdp'' ''sockA'', all_ok)]))) = Some []
   \<and> snd (client_run ready_client
        [(Recv_ice_candidate ''candidate-1'' ''sockA'', all_ok),
         (Recv_offer ''offer-sdp'' ''sockA'', all_ok)])
       = [New_peer_connection, Add_track mic, Add_track cam,
          Set_remote_description ''offer-sdp'', Create_answer,
          Set_local_description ''answer-sdp'', Emit (Emit_answer ''answer-sdp'' ''sockA'')]"
proof -
  have n: "peerConnectionRef ready_client = None"
    by (simp add: ready_client_def)
  have "client_run ready_client
        [(Recv_ice_candidate ''candidate-1'' ''sockA'', all_ok),
         (Recv_offer ''offer-sdp'' ''sockA'', all_ok)]
      = (in_call, [New_peer_connection, Add_track mic, Add_track cam,
          Set_remote_description ''offer-sdp'', Create_answer,
          Set_local_description ''answer-sdp'', Emit (Emit_answer ''answer-sdp'' ''sockA'')])"
    by (simp add: socket_on_ice_candidate_def handleIceCandidate_no_pc [OF n] socket_on_offer_def
        answer_offer_in_call)
  then show ?thesis
    by (simp add: in_call_def)
qed

subsection \<open>Screen sharing\<close>

text \<open>
  Claim C6 (starting a screen share replaces the sender's track in place, and reverting
  to the camera does the same). Starting the share in a call puts the screen track on
  the video sender, with no offer or answer emitted. Stopping the share, by the toggle or
  by the track's \<^verbatim>\<open>onended\<close> handler, acquires the camera again and stores the new
  stream, but \<^verbatim>\<open>replaceTrack\<close> is not called: the video sender still carries the screen
  track.
\<close>

theorem stop_share_keeps_screen_track:
  "toggleScreenShare all_ok in_call = (sharing, [Get_display_media, Replace_track (Some screen_track)])
   \<and> toggleScreenShare all_ok sharing
       = (sharing\<lparr>isScreenSharing := False, connectionStatus := ''Media ready''\<rparr>, [Get_user_media])
   \<and> map_option (map sender_track \<circ> senders) (peerConnectionRef (fst (toggleScreenShare all_ok sharing)))
       = Some [Some mic, Some screen_track]
   \<and> map_option (map sender_track \<circ> senders) (peerConnectionRef (fst (screen_onended all_ok sharing)))
       = Some [Some mic, Some screen_track]"
  by (simp add: toggleScreenShare_def replace_video_track_def initializeMedia_def
      screen_onended_def getVideoTracks_def is_video_sender_def in_call_def sharing_def
      ready_client_def all_ok_def mic_def cam_def screen_track_def Let_def)

subsection \<open>Answering an offer\<close>

text \<open>
  Claim C7. In every run of \<open>handleOffer\<close>, whatever the browser does: if an answer is
  constructed, then \<^verbatim>\<open>setRemoteDescription(offer)\<close> was called before and resolved, and
  the connection holds the offer as its remote description; every message the handler
  emits is an answer targeted at the sender of the offer, it carries the answer that
  was constructed, and it is emitted last, right after that answer was applied as the
  local description. When the socket exists and the three browser calls resolve, the
  handler does exactly this, after creating the connection if there was none: apply the
  offer, construct the answer, apply the answer, emit it to the offer's sender.
\<close>

theorem offer_applied_before_answer:
  "(Create_answer \<in> set (snd (handleOffer offer senderId br c)) \<longrightarrow>
      setRemoteDescription_result br = Resolves ()
      \<and> (\<exists>pre post. snd (handleOffer offer senderId br c) = pre @ Set_remote_description offer # post
            \<and> Create_answer \<notin> set pre \<and> Create_answer \<in> set post)
      \<and> map_option remoteDescription (peerConnectionRef (fst (handleOffer offer senderId br c)))
          = Some (Some offer))
   \<and> (\<forall>sig. Emit sig \<in> set (snd (handleOffer offer senderId br c)) \<longrightarrow>
        (\<exists>answer pre. createAnswer_result br = Resolves answer
           \<and> setLocalDescription_result br = Resolves ()
           \<and> sig = Emit_answer answer senderId
           \<and> snd (handleOffer offer senderId br c)
               = pre @ [Create_answer, Set_local_description answer, Emit sig]
           \<and> map_option localDescription (peerConnectionRef (fst (handleOffer offer senderId br c)))
               = Some (Some answer)))
   \<and> (socketRef c \<noteq> None \<and> setRemoteDescription_result br = Resolves ()
        \<and> createAnswer_result br = Resolves answer \<and> setLocalDescription_result br = Resolves ()
      \<longrightarrow> (\<exists>pre. set pre \<subseteq> insert New_peer_connection (range Add_track)
             \<and> snd (handleOffer offer senderId br c)
                 = pre @ [Set_remote_description offer, Create_answer,
                          Set_local_description answer, Emit (Emit_answer answer senderId)]))"
  (is "?A \<and> ?B \<and> ?C")
proof -
  let ?tr = "snd (handleOffer offer senderId br c)"
  obtain pre where pre: "set pre \<subseteq> insert New_peer_connection (range Add_track)"
    and h: "case setRemoteDescription_result br of
        Rejects err \<Rightarrow>
          ?tr = pre @ [Set_remote_description offer, Console_error ''Error handling offer'']
      | Resolves u \<Rightarrow>
          map_option remoteDescription (peerConnectionRef (fst (handleOffer offer senderId br c)))
            = Some (Some offer) \<and>
          (case createAnswer_result br of
             Rejects err \<Rightarrow>
               ?tr = pre @ [Set_remote_description offer, Create_answer,
                          Console_error ''Error handling offer'']
           | Resolves answer \<Rightarrow>
               (case setLocalDescription_result br of
                  Rejects err \<Rightarrow>
                    ?tr = pre @ [Set_remote_description offer, Create_answer,
                               Set_local_description answer,
                               Console_error ''Error handling offer'']
                | Resolves v \<Rightarrow>
                    map_option localDescription
                        (peerConnectionRef (fst (handleOffer offer senderId br c)))
                      = Some (Some answer) \<and>
                    ?tr = pre @ [Set_remote_description offer, Create_answer,
                               Set_local_description answer]
                            @ (if socketRef c \<noteq> None
                               then [Emit (Emit_answer answer senderId)] else [])))"
    using handleOffer_trace [where br = br and offer = offer and senderId = senderId and c = c] by blast
  note np = not_in_prefix [OF pre]
  show ?thesis
  proof (cases "setRemoteDescription_result br")
    case (Rejects err)
    with h have tr: "?tr = pre @ [Set_remote_description offer, Console_error ''Error handling offer'']"
      by simp
    have "Create_answer \<notin> set ?tr" "\<And>sig. Emit sig \<notin> set ?tr"
      unfolding tr using np by simp_all
    with Rejects show ?thesis by simp
  next
    case r: (Resolves u)
    with h have rd: "map_option remoteDescription
        (peerConnectionRef (fst (handleOffer offer senderId br c))) = Some (Some offer)"
      by simp
    have r': "setRemoteDescription_result br = Resolves ()"
      using r by simp
    show ?thesis
    proof (cases "createAnswer_result br")
      case (Rejects err)
      with h r have tr: "?tr = pre @ Set_remote_description offer
                           # [Create_answer, Console_error ''Error handling offer'']"
        by simp
      have a: ?A
        using r' rd tr np(1) by (intro impI conjI exI [of _ pre]
            exI [of _ "[Create_answer, Console_error ''Error handling offer'']"]) simp_all
      have "\<And>sig. Emit sig \<notin> set ?tr"
        unfolding tr using np by simp
      then have b: ?B by simp
      have c: ?C using Rejects by simp
      from a b c show ?thesis by (intro conjI)
    next
      case ca: (Resolves ans)
      show ?thesis
      proof (cases "setLocalDescription_result br")
        case (Rejects err)
        with h r ca have tr: "?tr = pre @ Set_remote_description offer
                  # [Create_answer, Set_local_description ans, Console_error ''Error handling offer'']"
          by simp
        have a: ?A
          using r' rd tr np(1) by (intro impI conjI exI [of _ pre]
              exI [of _ "[Create_answer, Set_local_description ans,
                          Console_error ''Error handling offer'']"]) simp_all
        have "\<And>sig. Emit sig \<notin> set ?tr"
          unfolding tr using np by simp
        then have b: ?B by simp
        have c: ?C using Rejects by simp
        from a b c show ?thesis by (intro conjI)
      next
        case sl: (Resolves v)
        let ?tail = "if socketRef c \<noteq> None then [Emit (Emit_answer ans senderId)] else []"
        from h r ca sl have ld: "map_option localDescription
              (peerConnectionRef (fst (handleOffer offer senderId br c))) = Some (Some ans)"
          and tr: "?tr = pre @ Set_remote_description offer
                      # ([Create_answer, Set_local_description ans] @ ?tail)"
          by simp_all
        have sl': "setLocalDescription_result br = Resolves ()"
          using sl by simp
        have a: ?A
          using r' rd tr np(1) by (intro impI conjI exI [of _ pre]
              exI [of _ "[Create_answer, Set_local_description ans] @ ?tail"]) simp_all
        have b: ?B
        proof (intro allI impI)
          fix sig
          assume "Emit sig \<in> set ?tr"
          then have sg: "sig = Emit_answer ans senderId" and so: "socketRef c \<noteq> None"
            unfolding tr using np(2) [of sig] by (auto split: if_splits)
          have "?tr = (pre @ [Set_remote_description offer])
                        @ [Create_answer, Set_local_description ans, Emit sig]"
            unfolding tr using sg so by simp
          with ca sl' sg ld show "\<exists>answer pre. createAnswer_result br = Resolves answer
             \<and> setLocalDescription_result br = Resolves ()
             \<and> sig = Emit_answer answer senderId
             \<and> ?tr = pre @ [Create_answer, Set_local_description answer, Emit sig]
             \<and> map_option localDescription (peerConnectionRef (fst (handleOffer offer senderId br c)))
                 = Some (Some answer)"
            by blast
        qed
        have c: ?C
        proof (intro impI)
          assume asm: "socketRef c \<noteq> None \<and> setRemoteDescription_result br = Resolves ()
            \<and> createAnswer_result br = Resolves answer \<and> setLocalDescription_result br = Resolves ()"
          then have "answer = ans" using ca by simp
          with asm tr have "?tr = pre @ [Set_remote_description offer, Create_answer,
                          Set_local_description answer, Emit (Emit_answer answer senderId)]"
            by simp
          with pre show "\<exists>pre. set pre \<subseteq> insert New_peer_connection (range Add_track)
             \<and> ?tr = pre @ [Set_remote_description offer, Create_answer,
                          Set_local_description answer, Emit (Emit_answer answer senderId)]"
            by blast
        qed
        from a b c show ?thesis by (intro conjI)
      qed
    qed
  qed
qed

theorem offer_applied_before_answer_witness:
  "socketRef ready_client \<noteq> None \<and> setRemoteDescription_result all_ok = Resolves ()
   \<and> createAnswer_result all_ok = Resolves ''answer-sdp''
   \<and> setLocalDescription_result all_ok = Resolves ()
   \<and> Create_answer \<in> set (snd (handleOffer ''offer-sdp'' ''sockA'' all_ok ready_client))
   \<and> Emit (Emit_answer ''answer-sdp'' ''sockA'')
        \<in> set (snd (handleOffer ''offer-sdp'' ''sockA'' all_ok ready_client))
   \<and> (\<exists>pre post. snd (handleOffer ''offer-sdp'' ''sockA'' all_ok ready_client)
          = pre @ Set_remote_description ''offer-sdp'' # post
        \<and> Create_answer \<notin> set pre \<and> Create_answer \<in> set post)
   \<and> (\<exists>pre. snd (handleOffer ''offer-sdp'' ''sockA'' all_ok ready_client)
          = pre @ [Create_answer, Set_local_description ''answer-sdp'',
                   Emit (Emit_answer ''answer-sdp'' ''sockA'')])"
proof -
  have s: "socketRef ready_client \<noteq> None"
    by (simp add: ready_client_def)
  have b: "setRemoteDescription_result all_ok = Resolves ()"
    "createAnswer_result all_ok = Resolves ''answer-sdp''"
    "setLocalDescription_result all_ok = Resolves ()"
    by (simp_all add: all_ok_def)
  have m: "Create_answer \<in> set (snd (handleOffer ''offer-sdp'' ''sockA'' all_ok ready_client))"
    "Emit (Emit_answer ''answer-sdp'' ''sockA'')
        \<in> set (snd (handleOffer ''offer-sdp'' ''sockA'' all_ok ready_client))"
    by (simp_all add: answer_offer_in_call)
  note t = offer_applied_before_answer [where offer = "''offer-sdp''" and senderId = "''sockA''"
      and br = all_ok and c = ready_client and answer = "''answer-sdp''"]
  from t m(1) have p1: "\<exists>pre post. snd (handleOffer ''offer-sdp'' ''sockA'' all_ok ready_client)
          = pre @ Set_remote_description ''offer-sdp'' # post
        \<and> Create_answer \<notin> set pre \<and> Create_answer \<in> set post"
    by blast
  from t m(2) have p2: "\<exists>pre. snd (handleOffer ''offer-sdp'' ''sockA'' all_ok ready_client)
          = pre @ [Create_answer, Set_local_description ''answer-sdp'',
                   Emit (Emit_answer ''answer-sdp'' ''sockA'')]"
    by blast
  from s b m p1 p2 show ?thesis by (intro conjI)
qed

subsection \<open>The sender of an answer or a candidate\<close>

text \<open>
  Claim C10. The handlers for a received answer and a received candidate do not look at
  the message's \<^verbatim>\<open>senderId\<close>: two messages that differ only in it give the same state
  and the same actions. Whoever the sender is, when the client has a peer connection and
  the browser accepts, the description is applied to that one connection as its remote
  description, and the candidate is added to it.
\<close>

theorem sender_is_not_checked:
  "socket_on_answer answer senderA br c = socket_on_answer answer senderB br c
   \<and> socket_on_ice_candidate cand senderA br c = socket_on_ice_candidate cand senderB br c
   \<and> (peerConnectionRef c = Some pc \<and> setRemoteDescription_result br = Resolves () \<longrightarrow>
        socket_on_answer answer senderA br c
          = (c\<lparr>peerConnectionRef := Some (pc\<lparr>remoteDescription := Some answer\<rparr>)\<rparr>,
             [Set_remote_description answer]))
   \<and> (peerConnectionRef c = Some pc \<and> addIceCandidate_result br = Resolves () \<longrightarrow>
        socket_on_ice_candidate cand senderA br c
          = (c\<lparr>peerConnectionRef := Some (pc\<lparr>remoteCandidates := remoteCandidates pc @ [cand]\<rparr>)\<rparr>,
             [Add_ice_candidate cand]))"
  by (simp add: socket_on_answer_def socket_on_ice_candidate_def handleAnswer_def
      handleIceCandidate_def)

theorem sender_is_not_checked_witness:
  "setRemoteDescription_result all_ok = Resolves () \<and> addIceCandidate_result all_ok = Resolves ()
   \<and> socket_on_answer ''answer-2'' ''sockA'' all_ok in_call
       = socket_on_answer ''answer-2'' ''sockZ'' all_ok in_call
   \<and> map_option remoteDescription
        (peerConnectionRef (fst (socket_on_answer ''answer-2'' ''sockZ'' all_ok in_call)))
       = Some (Some ''answer-2'')
   \<and> map_option remoteCandidates
        (peerConnectionRef (fst (socket_on_ice_candidate ''candidate-9'' ''sockZ'' all_ok in_call)))
       = Some [''candidate-9'']"
proof -
  have b: "setRemoteDescription_result all_ok = Resolves ()"
    "addIceCandidate_result all_ok = Resolves ()"
    by (simp_all add: all_ok_def)
  have p: "peerConnectionRef in_call =
     Some \<lparr>localDescription = Some ''answer-sdp'', remoteDescription = Some ''offer-sdp'',
           senders = [\<lparr>sender_track = Some mic\<rparr>, \<lparr>sender_track = Some cam\<rparr>],
           remoteCandidates = []\<rparr>"
    by (simp add: in_call_def)
  note t = sender_is_not_checked [where c = in_call and br = all_ok and answer = "''answer-2''"
      and cand = "''candidate-9''" and senderB = "''sockA''" and senderA = "''sockZ''"
      and pc = "\<lparr>localDescription = Some ''answer-sdp'', remoteDescription = Some ''offer-sdp'',
           senders = [\<lparr>sender_track = Some mic\<rparr>, \<lparr>sender_track = Some cam\<rparr>],
           remoteCandidates = []\<rparr>"]
  let ?pc = "\<lparr>localDescription = Some ''answer-sdp'', remoteDescription = Some ''offer-sdp'',
           senders = [\<lparr>sender_track = Some mic\<rparr>, \<lparr>sender_track = Some cam\<rparr>],
           remoteCandidates = []\<rparr>"
  from t b p have e1: "socket_on_answer ''answer-2'' ''sockZ'' all_ok in_call
      = socket_on_answer ''answer-2'' ''sockA'' all_ok in_call"
    and e2: "socket_on_answer ''answer-2'' ''sockZ'' all_ok in_call
      = (in_call\<lparr>peerConnectionRef := Some (?pc\<lparr>remoteDescription := Some ''answer-2''\<rparr>)\<rparr>,
         [Set_remote_description ''answer-2''])"
    and e3: "socket_on_ice_candidate ''candidate-9'' ''sockZ'' all_ok in_call
      = (in_call\<lparr>peerConnectionRef :=
           Some (?pc\<lparr>remoteCandidates := remoteCandidates ?pc @ [''candidate-9'']\<rparr>)\<rparr>,
         [Add_ice_candidate ''candidate-9''])"
    by blast+
  have r2: "map_option remoteDescription
        (peerConnectionRef (fst (socket_on_answer ''answer-2'' ''sockZ'' all_ok in_call)))
       = Some (Some ''answer-2'')"
    by (simp add: e2)
  have r3: "map_option remoteCandidates
        (peerConnectionRef (fst (socket_on_ice_candidate ''candidate-9'' ''sockZ'' all_ok in_call)))
       = Some [''candidate-9'']"
    by (simp add: e3)
  from b e1 [symmetric] r2 r3 show ?thesis by (intro conjI)
qed

end
